theory Spec2Isabelle
  imports Main "HOL-Library.Sublist"
begin

section \<open>JavaScript values\<close>

text \<open>
  Decoded token payloads and response bodies are JSON values. The JavaScript value
  \<^verbatim>\<open>undefined\<close> (a property that is not there) is \<open>None\<close> of \<open>json option\<close>.
  An object is an association list; a key is read with \<open>map_of\<close>.
\<close>

datatype json =
  JNull
  | JBool bool
  | JNum int
  | JStr string
  | JArr "json list"
  | JObj "(string \<times> json) list"

datatype js_error = TypeError

text \<open>Truthiness, as \<^verbatim>\<open>||\<close> and \<^verbatim>\<open>!\<close> test it.\<close>

fun truthy :: "json \<Rightarrow> bool" where
  "truthy JNull = False"
| "truthy (JBool b) = b"
| "truthy (JNum n) = (n \<noteq> 0)"
| "truthy (JStr s) = (s \<noteq> [])"
| "truthy (JArr xs) = True"
| "truthy (JObj kvs) = True"

text \<open>\<^verbatim>\<open>a || b\<close> where \<open>a\<close> may be undefined.\<close>

definition or_else :: "json option \<Rightarrow> json \<Rightarrow> json" where
  "or_else a b = (case a of None \<Rightarrow> b | Some v \<Rightarrow> if truthy v then v else b)"

text \<open>
  \<^verbatim>\<open>o[k]\<close> on a value that is neither null nor undefined, for the keys this program
  reads (\<^verbatim>\<open>resource_access\<close>, the two client names, \<^verbatim>\<open>roles\<close>): none of them
  is a built-in property of a string, a number, a boolean or an array, so only an object
  can hold one.
\<close>

fun get_prop :: "json \<Rightarrow> string \<Rightarrow> json option" where
  "get_prop (JObj kvs) k = map_of kvs k"
| "get_prop v k = None"

text \<open>\<^verbatim>\<open>e?.k\<close>: undefined when \<open>e\<close> is null or undefined.\<close>

definition opt_chain :: "json option \<Rightarrow> string \<Rightarrow> json option" where
  "opt_chain e k =
     (case e of None \<Rightarrow> None | Some JNull \<Rightarrow> None | Some v \<Rightarrow> get_prop v k)"

text \<open>
  A string is held as its UTF-8 bytes. JavaScript iterates a string by code point: a
  code point is a byte that is not a continuation byte (\<open>10xxxxxx\<close>), with the
  continuation bytes that follow it.
\<close>

definition continuation :: "char \<Rightarrow> bool" where
  "continuation c \<longleftrightarrow> 128 \<le> (of_char c :: nat) \<and> (of_char c :: nat) < 192"

fun code_points :: "string \<Rightarrow> string list" where
  "code_points [] = []"
| "code_points (c # cs) =
     (case code_points cs of
        [] \<Rightarrow> [[c]]
      | p # ps \<Rightarrow>
          (case p of
             [] \<Rightarrow> [c] # ps
           | d # ds \<Rightarrow> if continuation d then (c # p) # ps else [c] # p # ps))"

text \<open>
  \<^verbatim>\<open>[...v]\<close>: an array gives its elements, a string its code points, and every other
  value that can reach the spread (a truthy number, \<^verbatim>\<open>true\<close>, a plain object) is not
  iterable: a TypeError is thrown.
\<close>

fun spread :: "json \<Rightarrow> js_error + json list" where
  "spread (JArr xs) = Inr xs"
| "spread (JStr s) = Inr (map JStr (code_points s))"
| "spread v = Inl TypeError"

section \<open>Requests, responses and middleware outcomes\<close>

record request =
  meth :: string
  path :: string
  authorization :: "string option"
  user :: "json option"

record response =
  status :: nat
  body :: json

text \<open>
  A middleware either answers the request (\<^verbatim>\<open>res.status(..).json(..)\<close>), hands it
  on (\<^verbatim>\<open>next()\<close>), or throws.
\<close>

datatype 'a outcome = Respond response | Next 'a | Throw js_error

section \<open>Api.js: the role check \<^verbatim>\<open>requiereRol\<close>\<close>

text \<open>\<^verbatim>\<open>req.user.resource_access || {}\<close>, for claims that are not null.\<close>

definition resourceAccess :: "json \<Rightarrow> json" where
  "resourceAccess claims = or_else (get_prop claims ''resource_access'') (JObj [])"

text \<open>\<^verbatim>\<open>resourceAccess[ns]?.roles || []\<close>\<close>

definition namespace_roles :: "json \<Rightarrow> string \<Rightarrow> json" where
  "namespace_roles ra ns = or_else (opt_chain (get_prop ra ns) ''roles'') (JArr [])"

text \<open>\<^verbatim>\<open>[...microRoles, ...frontendRoles]\<close>: the first spread that fails throws.\<close>

definition todosLosRoles :: "json \<Rightarrow> js_error + json list" where
  "todosLosRoles ra =
     (case spread (namespace_roles ra ''microserviciocliente'') of
        Inl e \<Rightarrow> Inl e
      | Inr microRoles \<Rightarrow>
          (case spread (namespace_roles ra ''frontendapp'') of
             Inl e \<Rightarrow> Inl e
           | Inr frontendRoles \<Rightarrow> Inr (microRoles @ frontendRoles)))"

text \<open>
  \<^verbatim>\<open>rolesRequeridos.some(rol => todosLosRoles.includes(rol))\<close>; every route passes
  string literals as the required roles, and \<^verbatim>\<open>includes\<close> finds a string only in an
  element that is the same string.
\<close>

definition tienePermiso :: "string list \<Rightarrow> json list \<Rightarrow> bool" where
  "tienePermiso rolesRequeridos todos =
     list_ex (\<lambda>rol. JStr rol \<in> set todos) rolesRequeridos"

definition permisos_insuficientes :: "string list \<Rightarrow> json list \<Rightarrow> response" where
  "permisos_insuficientes rolesRequeridos todos =
     \<lparr>status = 403,
      body = JObj [(''error'', JStr ''Permisos insuficientes''),
                   (''rolesRequeridos'', JArr (map JStr rolesRequeridos)),
                   (''rolesActuales'', JArr todos)]\<rparr>"

text \<open>
  The middleware \<^verbatim>\<open>requiereRol(...rolesRequeridos)\<close>. Reading a property of
  \<^verbatim>\<open>req.user\<close> throws when \<^verbatim>\<open>req.user\<close> is undefined or null.
\<close>

definition requiereRol :: "string list \<Rightarrow> request \<Rightarrow> request outcome" where
  "requiereRol rolesRequeridos req =
     (case user req of
        None \<Rightarrow> Throw TypeError
      | Some JNull \<Rightarrow> Throw TypeError
      | Some claims \<Rightarrow>
          (case todosLosRoles (resourceAccess claims) of
             Inl e \<Rightarrow> Throw e
           | Inr todos \<Rightarrow>
               if \<not> tienePermiso rolesRequeridos todos
               then Respond (permisos_insuficientes rolesRequeridos todos)
               else Next req))"

section \<open>Api.js: the token check \<^verbatim>\<open>verificarToken\<close>\<close>

definition KEYCLOAK_URL :: string where
  "KEYCLOAK_URL = ''http://localhost:8080''"

definition REALM :: string where
  "REALM = ''parcial-oauth''"

text \<open>
  The one effect the model follows is the key fetch. The world records every call of
  \<^verbatim>\<open>client.getSigningKey\<close>, with the key id asked for; the JWKS client (package
  jwks-rsa, with its cache) is a parameter, and it can reach the network only inside
  such a call.
\<close>

record world =
  key_requests :: "string option list"

record signing_key =
  publicKey :: "string option"
  rsaPublicKey :: "string option"

type_synonym jwks_client = "string option \<Rightarrow> string + signing_key"

record jwt_header =
  alg :: string
  kid :: "string option"

text \<open>
  \<^verbatim>\<open>getKey(header, callback)\<close>: the callback gets the client's error, or
  \<^verbatim>\<open>key.publicKey || key.rsaPublicKey\<close>.
\<close>

definition getKey :: "jwks_client \<Rightarrow> jwt_header \<Rightarrow> world \<Rightarrow> (string + string option) \<times> world" where
  "getKey client hdr w =
     (let w' = w\<lparr>key_requests := key_requests w @ [kid hdr]\<rparr> in
      case client (kid hdr) of
        Inl err \<Rightarrow> (Inl err, w')
      | Inr key \<Rightarrow>
          (Inr (case publicKey key of
                  None \<Rightarrow> rsaPublicKey key
                | Some k \<Rightarrow> if k \<noteq> [] then Some k else rsaPublicKey key), w'))"

text \<open>
  The options object handed to \<^verbatim>\<open>jwt.verify\<close>; a key the caller leaves out is
  \<open>None\<close>.
\<close>

record verify_options =
  algorithms :: "string list"
  issuer :: "string option"
  audience :: "string option"

definition keycloak_options :: verify_options where
  "keycloak_options =
     \<lparr>algorithms = [''RS256''],
      issuer = Some (KEYCLOAK_URL @ ''/realms/'' @ REALM),
      audience = None\<rparr>"

text \<open>
  \<^verbatim>\<open>jwt.verify(token, getKey, options, callback)\<close> belongs to the package
  jsonwebtoken: a parameter of the model. It gets the token (undefined when the header
  holds no second piece), the key callback and the options, and calls back with an
  error message or the decoded payload.
\<close>

type_synonym key_provider = "jwt_header \<Rightarrow> world \<Rightarrow> (string + string option) \<times> world"

type_synonym verifier =
  "string option \<Rightarrow> key_provider \<Rightarrow> verify_options \<Rightarrow> world \<Rightarrow> (string + json) \<times> world"

text \<open>\<^verbatim>\<open>s.split(' ')\<close>: one piece more than there are spaces.\<close>

fun split_space :: "string \<Rightarrow> string list" where
  "split_space [] = [[]]"
| "split_space (c # cs) =
     (if c = CHR '' '' then [] # split_space cs
      else (case split_space cs of [] \<Rightarrow> [[c]] | p # ps \<Rightarrow> (c # p) # ps))"

text \<open>\<^verbatim>\<open>pieces[1]\<close>: undefined when there is no second piece.\<close>

definition second_piece :: "string list \<Rightarrow> string option" where
  "second_piece pieces = (case pieces of a # b # rest \<Rightarrow> Some b | _ \<Rightarrow> None)"

definition token_no_proporcionado :: response where
  "token_no_proporcionado =
     \<lparr>status = 401,
      body = JObj [(''error'', JStr ''Token no proporcionado''),
                   (''mensaje'', JStr ''Debe incluir: Authorization: Bearer <token>'')]\<rparr>"

text \<open>The a-acute of the message is written as its two UTF-8 bytes.\<close>

definition token_invalido :: "string \<Rightarrow> response" where
  "token_invalido detalle =
     \<lparr>status = 403,
      body = JObj [(''error'', JStr (''Token inv'' @ [CHR 0xC3, CHR 0xA1] @ ''lido o expirado'')),
                   (''detalle'', JStr detalle)]\<rparr>"

text \<open>
  \<^verbatim>\<open>req.headers.authorization\<close> is a string or undefined; \<^verbatim>\<open>!authHeader\<close>
  holds for undefined and for the empty string.
\<close>

definition verificarToken ::
  "verifier \<Rightarrow> jwks_client \<Rightarrow> request \<Rightarrow> world \<Rightarrow> request outcome \<times> world" where
  "verificarToken jwt_verify client req w =
     (case authorization req of
        None \<Rightarrow> (Respond token_no_proporcionado, w)
      | Some authHeader \<Rightarrow>
          if authHeader = [] \<or> \<not> prefix ''Bearer '' authHeader
          then (Respond token_no_proporcionado, w)
          else
            (case jwt_verify (second_piece (split_space authHeader)) (getKey client)
                    keycloak_options w of
               (Inl msg, w') \<Rightarrow> (Respond (token_invalido msg), w')
             | (Inr decoded, w') \<Rightarrow> (Next (req\<lparr>user := Some decoded\<rparr>), w')))"

text \<open>
  A protected route of Api.js: \<^verbatim>\<open>verificarToken\<close>, then
  \<^verbatim>\<open>requiereRol(...)\<close>, then the handler (a parameter: the handlers only shape a
  payload). An exception (\<open>Inl\<close>) goes to the error middleware at the end of the file.
\<close>

definition keycloak_route ::
  "verifier \<Rightarrow> jwks_client \<Rightarrow> string list \<Rightarrow> (request \<Rightarrow> response) \<Rightarrow>
   request \<Rightarrow> world \<Rightarrow> (js_error + response) \<times> world" where
  "keycloak_route jwt_verify client rolesRequeridos handler req w =
     (case verificarToken jwt_verify client req w of
        (Respond r, w') \<Rightarrow> (Inr r, w')
      | (Throw e, w') \<Rightarrow> (Inl e, w')
      | (Next req', w') \<Rightarrow>
          (case requiereRol rolesRequeridos req' of
             Respond r \<Rightarrow> (Inr r, w')
           | Throw e \<Rightarrow> (Inl e, w')
           | Next req'' \<Rightarrow> (Inr (handler req''), w')))"

section \<open>A token verifier to run the middleware on\<close>

text \<open>
  Parsing and cryptography are abstracted: the environment says which strings decode to
  which token and what time it is, and a token names the key that signed it.
\<close>

record jwt =
  header :: jwt_header
  payload :: json
  signed_with :: string

record verify_env =
  decode :: "string \<Rightarrow> jwt option"
  now :: int

definition issuer_ok :: "verify_options \<Rightarrow> json \<Rightarrow> bool" where
  "issuer_ok opts claims =
     (case issuer opts of
        None \<Rightarrow> True
      | Some i \<Rightarrow> get_prop claims ''iss'' = Some (JStr i))"

definition audience_ok :: "verify_options \<Rightarrow> json \<Rightarrow> bool" where
  "audience_ok opts claims =
     (case audience opts of
        None \<Rightarrow> True
      | Some a \<Rightarrow>
          (case get_prop claims ''aud'' of
             Some (JStr s) \<Rightarrow> s = a
           | Some (JArr xs) \<Rightarrow> JStr a \<in> set xs
           | _ \<Rightarrow> False))"

definition not_expired :: "verify_env \<Rightarrow> json \<Rightarrow> bool" where
  "not_expired env claims =
     (case get_prop claims ''exp'' of Some (JNum e) \<Rightarrow> now env < e | _ \<Rightarrow> False)"

definition active :: "verify_env \<Rightarrow> json \<Rightarrow> bool" where
  "active env claims =
     (case get_prop claims ''nbf'' of
        None \<Rightarrow> True
      | Some (JNum n) \<Rightarrow> n \<le> now env
      | _ \<Rightarrow> False)"

text \<open>
  Modelled from the spec: \<^verbatim>\<open>jwt.verify\<close> is a function of the package jsonwebtoken,
  which is not among the repository's files. The checks and their order are those of
  the spec's Token Verifier (section 4.2): the algorithm of the header against the
  allowed ones, then the key, the signature, the issuer, the audience, the expiry and
  not-before. A check is made against the option the caller passed and left out when
  the caller passed none.
\<close>

definition jwt_verify :: "verify_env \<Rightarrow> verifier" where
  "jwt_verify env token getSecret opts w =
     (case token of
        None \<Rightarrow> (Inl ''jwt must be provided'', w)
      | Some s \<Rightarrow>
          (case decode env s of
             None \<Rightarrow> (Inl ''jwt malformed'', w)
           | Some t \<Rightarrow>
               if alg (header t) \<notin> set (algorithms opts)
               then (Inl ''invalid algorithm'', w)
               else
                 (case getSecret (header t) w of
                    (Inl e, w') \<Rightarrow> (Inl e, w')
                  | (Inr None, w') \<Rightarrow> (Inl ''secret or public key must be provided'', w')
                  | (Inr (Some k), w') \<Rightarrow>
                      if signed_with t \<noteq> k then (Inl ''invalid signature'', w')
                      else if \<not> issuer_ok opts (payload t) then (Inl ''jwt issuer invalid'', w')
                      else if \<not> audience_ok opts (payload t)
                      then (Inl ''jwt audience invalid'', w')
                      else if \<not> not_expired env (payload t) then (Inl ''jwt expired'', w')
                      else if \<not> active env (payload t) then (Inl ''jwt not active'', w')
                      else (Inr (payload t), w'))))"

section \<open>The Auth0 variant: configuration, routes, error middleware\<close>

definition AUTH0_DOMAIN :: string where
  "AUTH0_DOMAIN = ''dev-uilvef2fvivglwd5.us.auth0.com''"

definition AUTH0_AUDIENCE :: string where
  "AUTH0_AUDIENCE = ''https://api-parcial.com''"

record auth_options =
  opt_audience :: string
  issuerBaseURL :: string
  tokenSigningAlg :: string

text \<open>
  An error object as the error middleware reads it: \<^verbatim>\<open>name\<close>, \<^verbatim>\<open>message\<close>,
  and the fields \<^verbatim>\<open>code\<close>, \<^verbatim>\<open>expected\<close>, \<^verbatim>\<open>actual\<close>, each of which may
  be undefined.
\<close>

record oauth_error =
  err_name :: string
  err_message :: string
  err_code :: "json option"
  err_expected :: "json option"
  err_actual :: "json option"

text \<open>
  \<^verbatim>\<open>auth(options)\<close> and \<^verbatim>\<open>requiredScopes(scope)\<close> come from the package
  express-oauth2-jwt-bearer: parameters of the model. The middleware that
  \<^verbatim>\<open>auth\<close> builds passes an error to \<^verbatim>\<open>next\<close> or stores the payload in
  \<^verbatim>\<open>req.auth\<close>; the one that \<^verbatim>\<open>requiredScopes\<close> builds passes an error or
  nothing.
\<close>

type_synonym auth_middleware = "request \<Rightarrow> world \<Rightarrow> (oauth_error + json) \<times> world"

type_synonym scope_check = "string \<Rightarrow> json \<Rightarrow> oauth_error option"

definition checkJwt :: "(auth_options \<Rightarrow> auth_middleware) \<Rightarrow> auth_middleware" where
  "checkJwt auth =
     auth \<lparr>opt_audience = AUTH0_AUDIENCE,
           issuerBaseURL = ''https://'' @ AUTH0_DOMAIN @ ''/'',
           tokenSigningAlg = ''RS256''\<rparr>"

text \<open>
  \<^verbatim>\<open>res.json\<close> of an object literal: a key whose value is undefined is left out of
  the body.
\<close>

definition obj :: "(string \<times> json option) list \<Rightarrow> json" where
  "obj kvs = JObj (List.map_filter (\<lambda>(k, v). map_option (Pair k) v) kvs)"

text \<open>The error middleware, in the order of its tests.\<close>

definition error_handler :: "oauth_error \<Rightarrow> response" where
  "error_handler err =
     (if err_name err = ''UnauthorizedError''
      then \<lparr>status = 401,
            body = obj [(''error'', Some (JStr (''Token no proporcionado o inv'' @
                                                  [CHR 0xC3, CHR 0xA1] @ ''lido''))),
                        (''mensaje'', Some (JStr (err_message err))),
                        (''detalles'',
                           Some (JStr ''Debe incluir header: Authorization: Bearer <tu_token>'')),
                        (''codigo'', err_code err)]\<rparr>
      else if err_name err = ''InsufficientScopeError''
      then \<lparr>status = 403,
            body = obj [(''error'', Some (JStr ''Permisos insuficientes'')),
                        (''mensaje'', Some (JStr ''El token no tiene los scopes necesarios'')),
                        (''scopes_requeridos'', err_expected err),
                        (''scopes_actuales'', err_actual err)]\<rparr>
      else \<lparr>status = 500,
            body = obj [(''error'', Some (JStr ''Error interno del servidor'')),
                        (''mensaje'', Some (JStr (err_message err)))]\<rparr>)"


datatype guard = Public | Token | Scoped string

record route =
  r_meth :: string
  r_path :: string
  r_guard :: guard


text \<open>
  One route: its guards in order, then its handler (a parameter). An error a guard
  passes to \<^verbatim>\<open>next\<close> skips the handler and reaches the error middleware.
\<close>

definition run_route ::
  "(auth_options \<Rightarrow> auth_middleware) \<Rightarrow> scope_check \<Rightarrow>
   (route \<Rightarrow> request \<Rightarrow> json option \<Rightarrow> response) \<Rightarrow>
   route \<Rightarrow> request \<Rightarrow> world \<Rightarrow> response \<times> world" where
  "run_route auth requiredScopes handler r req w =
     (case r_guard r of
        Public \<Rightarrow> (handler r req None, w)
      | Token \<Rightarrow>
          (case checkJwt auth req w of
             (Inl err, w') \<Rightarrow> (error_handler err, w')
           | (Inr claims, w') \<Rightarrow> (handler r req (Some claims), w'))
      | Scoped s \<Rightarrow>
          (case checkJwt auth req w of
             (Inl err, w') \<Rightarrow> (error_handler err, w')
           | (Inr claims, w') \<Rightarrow>
               (case requiredScopes s claims of
                  Some err \<Rightarrow> (error_handler err, w')
                | None \<Rightarrow> (handler r req (Some claims), w'))))"




section \<open>Sample data\<close>

definition w0 :: world where
  "w0 = \<lparr>key_requests = []\<rparr>"

definition sample_client :: jwks_client where
  "sample_client k =
     (if k = Some ''kid-1''
      then Inr \<lparr>publicKey = Some ''PUBLIC-KEY-1'', rsaPublicKey = None\<rparr>
      else Inl ''Unable to find a signing key that matches'')"

text \<open>Namespace \<^verbatim>\<open>microserviciocliente\<close> grants write, \<^verbatim>\<open>frontendapp\<close> grants read.\<close>

definition sample_access :: json where
  "sample_access =
     JObj [(''microserviciocliente'', JObj [(''roles'', JArr [JStr ''write''])]),
           (''frontendapp'', JObj [(''roles'', JArr [JStr ''read''])])]"

definition sample_claims :: "string \<Rightarrow> int \<Rightarrow> json" where
  "sample_claims aud exp =
     JObj [(''iss'', JStr ''http://localhost:8080/realms/parcial-oauth''),
           (''aud'', JStr aud),
           (''exp'', JNum exp),
           (''azp'', JStr ''frontendapp''),
           (''resource_access'', sample_access)]"

definition sample_token :: "json \<Rightarrow> jwt" where
  "sample_token claims =
     \<lparr>header = \<lparr>alg = ''RS256'', kid = Some ''kid-1''\<rparr>,
      payload = claims,
      signed_with = ''PUBLIC-KEY-1''\<rparr>"

text \<open>
  At time 1000: a token for another audience that expires at 2000, and one that expired
  at 500.
\<close>

definition sample_env :: verify_env where
  "sample_env =
     \<lparr>decode = (\<lambda>s. if s = ''tok.live'' then Some (sample_token (sample_claims ''otro-servicio'' 2000))
                     else if s = ''tok.old'' then Some (sample_token (sample_claims ''otro-servicio'' 500))
                     else None),
      now = 1000\<rparr>"

definition sample_request :: "string option \<Rightarrow> request" where
  "sample_request h =
     \<lparr>meth = ''GET'', path = ''/api/usuarios/perfil'', authorization = h, user = None\<rparr>"

definition sample_handler :: "request \<Rightarrow> response" where
  "sample_handler req = \<lparr>status = 200, body = JObj [(''mensaje'', JStr ''Perfil'')]\<rparr>"

text \<open>
  Stand-ins for the library middlewares of the Auth0 variant. An \<^verbatim>\<open>auth\<close> that
  reports a missing token, and one that accepts with the scopes read and write.
\<close>

definition sample_auth_fail :: "auth_options \<Rightarrow> auth_middleware" where
  "sample_auth_fail opts req w =
     (Inl \<lparr>err_name = ''UnauthorizedError'', err_message = ''Unauthorized'',
           err_code = None, err_expected = None, err_actual = None\<rparr>, w)"

definition sample_auth_ok :: "auth_options \<Rightarrow> auth_middleware" where
  "sample_auth_ok opts req w = (Inr (JObj [(''scope'', JStr ''read write'')]), w)"

text \<open>
  A scope check for one required scope: it looks the scope up among the pieces of the
  \<^verbatim>\<open>scope\<close> claim. The error it passes on is the library's
  \<^verbatim>\<open>InsufficientScopeError\<close>: a name, a message and a code, and no field
  \<^verbatim>\<open>expected\<close> or \<^verbatim>\<open>actual\<close>.
\<close>

definition insufficient_scope :: oauth_error where
  "insufficient_scope =
     \<lparr>err_name = ''InsufficientScopeError'', err_message = ''Insufficient Scope'',
      err_code = Some (JStr ''insufficient_scope''),
      err_expected = None, err_actual = None\<rparr>"

definition sample_scope_check :: scope_check where
  "sample_scope_check s claims =
     (case get_prop claims ''scope'' of
        Some (JStr granted) \<Rightarrow>
          if s \<in> set (split_space granted) then None else Some insufficient_scope
      | _ \<Rightarrow> Some insufficient_scope)"





definition sample_route_handler :: "route \<Rightarrow> request \<Rightarrow> json option \<Rightarrow> response" where
  "sample_route_handler r req claims = \<lparr>status = 200, body = JObj []\<rparr>"

section \<open>Properties of the role check\<close>


lemma requiereRol_claims:
  assumes "user req = Some claims" and "claims \<noteq> JNull"
  shows "requiereRol R req =
           (case todosLosRoles (resourceAccess claims) of
              Inl e \<Rightarrow> Throw e
            | Inr todos \<Rightarrow>
                if \<not> tienePermiso R todos
                then Respond (permisos_insuficientes R todos)
                else Next req)"
  using assms by (cases claims) (simp_all add: requiereRol_def)

lemma requiereRol_Respond:
  assumes "requiereRol R req = Respond r"
  shows "\<exists>claims todos. user req = Some claims \<and>
           todosLosRoles (resourceAccess claims) = Inr todos \<and>
           \<not> tienePermiso R todos \<and> r = permisos_insuficientes R todos"
  using assms
  by (auto simp: requiereRol_def split: option.splits json.splits sum.splits if_splits)

lemma namespace_roles_cong:
  "get_prop ra ns = get_prop ra' ns \<Longrightarrow> namespace_roles ra ns = namespace_roles ra' ns"
  by (simp add: namespace_roles_def)

lemma todosLosRoles_cong:
  assumes "get_prop ra ''microserviciocliente'' = get_prop ra' ''microserviciocliente''"
    and "get_prop ra ''frontendapp'' = get_prop ra' ''frontendapp''"
  shows "todosLosRoles ra = todosLosRoles ra'"
proof -
  have "namespace_roles ra ''microserviciocliente'' = namespace_roles ra' ''microserviciocliente''"
    using assms(1) by (rule namespace_roles_cong)
  moreover have "namespace_roles ra ''frontendapp'' = namespace_roles ra' ''frontendapp''"
    using assms(2) by (rule namespace_roles_cong)
  ultimately show ?thesis
    unfolding todosLosRoles_def by (simp cong: sum.case_cong)
qed

lemma todosLosRoles_neither:
  assumes "get_prop ra ''microserviciocliente'' = None" and "get_prop ra ''frontendapp'' = None"
  shows "todosLosRoles ra = Inr []"
  using assms by (simp add: todosLosRoles_def namespace_roles_def opt_chain_def or_else_def)

lemma resourceAccess_absent:
  "map_of kvs ''resource_access'' = None \<Longrightarrow> resourceAccess (JObj kvs) = JObj []"
  by (simp add: resourceAccess_def or_else_def)

lemma resourceAccess_present:
  "map_of kvs ''resource_access'' = Some ra \<Longrightarrow>
     resourceAccess (JObj kvs) = (if truthy ra then ra else JObj [])"
  by (simp add: resourceAccess_def or_else_def)

section \<open>Properties of the token check\<close>

text \<open>
  The two branches of \<^verbatim>\<open>verificarToken\<close>: the header test fails, or the verifier
  is asked.
\<close>

lemma verificarToken_no_bearer:
  assumes "authorization req = None \<or> (\<exists>h. authorization req = Some h \<and> \<not> prefix ''Bearer '' h)"
  shows "verificarToken V client req w = (Respond token_no_proporcionado, w)"
  using assms by (auto simp: verificarToken_def split: option.splits)

lemma verificarToken_bearer:
  assumes "authorization req = Some h" and "prefix ''Bearer '' h"
  shows "verificarToken V client req w =
           (case V (second_piece (split_space h)) (getKey client) keycloak_options w of
              (Inl msg, w') \<Rightarrow> (Respond (token_invalido msg), w')
            | (Inr decoded, w') \<Rightarrow> (Next (req\<lparr>user := Some decoded\<rparr>), w'))"
proof -
  from assms(2) have "h \<noteq> []" by auto
  with assms show ?thesis by (simp add: verificarToken_def)
qed

lemma verificarToken_Next:
  assumes "verificarToken V client req w = (Next req', w')"
  shows "\<exists>h decoded. authorization req = Some h \<and> prefix ''Bearer '' h \<and>
           V (second_piece (split_space h)) (getKey client) keycloak_options w = (Inr decoded, w') \<and>
           req' = req\<lparr>user := Some decoded\<rparr>"
  using assms
  by (auto simp: verificarToken_def split: option.splits if_splits prod.splits sum.splits)

lemma run_route_auth_error:
  assumes "r_guard r \<noteq> Public" and "checkJwt auth req w = (Inl err, w')"
  shows "run_route auth requiredScopes handler r req w = (error_handler err, w')"
  using assms by (cases "r_guard r") (simp_all add: run_route_def)

lemma checkJwt_configuration:
  "checkJwt auth =
     auth \<lparr>opt_audience = ''https://api-parcial.com'',
           issuerBaseURL = ''https://dev-uilvef2fvivglwd5.us.auth0.com/'',
           tokenSigningAlg = ''RS256''\<rparr>"
  by (simp add: checkJwt_def AUTH0_AUDIENCE_def AUTH0_DOMAIN_def)


lemma error_handler_scope_fields:
  assumes "err_name err = ''InsufficientScopeError''"
  shows "status (error_handler err) = 403"
    and "get_prop (body (error_handler err)) ''scopes_requeridos'' = err_expected err"
    and "get_prop (body (error_handler err)) ''scopes_actuales'' = err_actual err"
  using assms
  by (cases "err_expected err"; cases "err_actual err";
      simp add: error_handler_def obj_def List.map_filter_simps)+

section \<open>Evaluation on the sample data\<close>

lemma sample_split_live: "second_piece (split_space ''Bearer tok.live'') = Some ''tok.live''"
  by (simp add: second_piece_def)

lemma sample_split_old: "second_piece (split_space ''Bearer tok.old'') = Some ''tok.old''"
  by (simp add: second_piece_def)

lemma sample_getKey:
  "getKey sample_client \<lparr>alg = ''RS256'', kid = Some ''kid-1''\<rparr> w0 =
     (Inr (Some ''PUBLIC-KEY-1''), \<lparr>key_requests = [Some ''kid-1'']\<rparr>)"
  by (simp add: getKey_def sample_client_def w0_def)

lemma sample_verify_live:
  "jwt_verify sample_env (Some ''tok.live'') (getKey sample_client) keycloak_options w0 =
     (Inr (sample_claims ''otro-servicio'' 2000), \<lparr>key_requests = [Some ''kid-1'']\<rparr>)"
  by (simp add: jwt_verify_def sample_env_def sample_token_def sample_getKey keycloak_options_def
      issuer_ok_def audience_ok_def not_expired_def active_def sample_claims_def
      KEYCLOAK_URL_def REALM_def)

lemma sample_verify_old:
  "jwt_verify sample_env (Some ''tok.old'') (getKey sample_client) keycloak_options w0 =
     (Inl ''jwt expired'', \<lparr>key_requests = [Some ''kid-1'']\<rparr>)"
  by (simp add: jwt_verify_def sample_env_def sample_token_def sample_getKey keycloak_options_def
      issuer_ok_def audience_ok_def not_expired_def active_def sample_claims_def
      KEYCLOAK_URL_def REALM_def)

lemma sample_live_accepted:
  "verificarToken (jwt_verify sample_env) sample_client
       (sample_request (Some ''Bearer tok.live'')) w0 =
     (Next ((sample_request (Some ''Bearer tok.live''))
              \<lparr>user := Some (sample_claims ''otro-servicio'' 2000)\<rparr>),
      \<lparr>key_requests = [Some ''kid-1'']\<rparr>)"
proof -
  have a: "authorization (sample_request (Some ''Bearer tok.live'')) = Some ''Bearer tok.live''"
    by (simp add: sample_request_def)
  have p: "prefix ''Bearer '' ''Bearer tok.live''" by simp
  show ?thesis
    unfolding verificarToken_bearer [OF a p] sample_split_live sample_verify_live by simp
qed

lemma sample_old_rejected:
  "verificarToken (jwt_verify sample_env) sample_client
       (sample_request (Some ''Bearer tok.old'')) w0 =
     (Respond (token_invalido ''jwt expired''), \<lparr>key_requests = [Some ''kid-1'']\<rparr>)"
proof -
  have a: "authorization (sample_request (Some ''Bearer tok.old'')) = Some ''Bearer tok.old''"
    by (simp add: sample_request_def)
  have p: "prefix ''Bearer '' ''Bearer tok.old''" by simp
  show ?thesis
    unfolding verificarToken_bearer [OF a p] sample_split_old sample_verify_old by simp
qed

lemma sample_todos:
  "todosLosRoles (resourceAccess (sample_claims a e)) = Inr [JStr ''write'', JStr ''read'']"
  by (simp add: todosLosRoles_def resourceAccess_def sample_claims_def sample_access_def
      namespace_roles_def opt_chain_def or_else_def)

lemma sample_admin_denied:
  "requiereRol [''admin''] ((sample_request h)\<lparr>user := Some (sample_claims a e)\<rparr>) =
     Respond (permisos_insuficientes [''admin''] [JStr ''write'', JStr ''read''])"
proof -
  have u: "user ((sample_request h)\<lparr>user := Some (sample_claims a e)\<rparr>) = Some (sample_claims a e)"
    by simp
  have n: "sample_claims a e \<noteq> JNull" by (simp add: sample_claims_def)
  show ?thesis
    unfolding requiereRol_claims [OF u n] sample_todos by (simp add: tienePermiso_def)
qed

section \<open>Token verification: what is checked, and the status of a failure\<close>

text \<open>
  Claim C1, as stated, fails on Api.js. At time 1000 a request carries a token that is
  signed with the published key, names the realm as its issuer, expires at 2000 and has
  the audience \<^verbatim>\<open>otro-servicio\<close>. \<^verbatim>\<open>verificarToken\<close> passes no audience to
  the verifier, so nothing compares the token's audience with anything: the claims are
  attached to \<^verbatim>\<open>req.user\<close> and the request goes on.
\<close>

theorem audience_not_checked_counterexample:
  "verificarToken (jwt_verify sample_env) sample_client
       (sample_request (Some ''Bearer tok.live'')) w0 =
     (Next ((sample_request (Some ''Bearer tok.live''))
              \<lparr>user := Some (sample_claims ''otro-servicio'' 2000)\<rparr>),
      \<lparr>key_requests = [Some ''kid-1'']\<rparr>)
   \<and> get_prop (sample_claims ''otro-servicio'' 2000) ''aud'' = Some (JStr ''otro-servicio'')
   \<and> audience keycloak_options = None"
proof -
  have c: "get_prop (sample_claims ''otro-servicio'' 2000) ''aud'' = Some (JStr ''otro-servicio'')"
    by (simp add: sample_claims_def)
  have n: "audience keycloak_options = None"
    by (simp add: keycloak_options_def)
  from sample_live_accepted c n show ?thesis by simp
qed

text \<open>
  Claim C1, amended. Claims are attached only after the library's token verification has
  succeeded, under the checks each variant configures. In Api.js,
  \<^verbatim>\<open>verificarToken\<close> attaches claims to \<^verbatim>\<open>req.user\<close> only when the header starts
  with \<^verbatim>\<open>Bearer \<close> and \<^verbatim>\<open>jwt.verify\<close>, called with the allowed algorithm RS256,
  the realm's issuer and no audience, has called back with the decoded payload; the
  claims attached are that payload. In the Auth0 variant the token middleware of every
  protected route is the library's \<^verbatim>\<open>auth\<close> configured with the audience
  \<^verbatim>\<open>https://api-parcial.com\<close>, the issuer of the Auth0 domain and RS256: when it passes
  on an error, the request goes to the error middleware and no handler sees it; when it
  succeeds, the handler gets the claims it returned, after the scope check where the
  route has one.
\<close>

theorem claims_attached_after_verification:
  "(verificarToken V client req w = (Next req', w') \<longrightarrow>
      (\<exists>h decoded. authorization req = Some h \<and> prefix ''Bearer '' h \<and>
         V (second_piece (split_space h)) (getKey client)
           \<lparr>algorithms = [''RS256''],
            issuer = Some ''http://localhost:8080/realms/parcial-oauth'',
            audience = None\<rparr> w = (Inr decoded, w') \<and>
         req' = req\<lparr>user := Some decoded\<rparr>))
   \<and> (r_guard r \<noteq> Public \<and>
        auth \<lparr>opt_audience = ''https://api-parcial.com'',
              issuerBaseURL = ''https://dev-uilvef2fvivglwd5.us.auth0.com/'',
              tokenSigningAlg = ''RS256''\<rparr> rq u = (Inl err, u')
      \<longrightarrow> run_route auth requiredScopes handler r rq u = (error_handler err, u'))
   \<and> (r_guard r \<noteq> Public \<and>
        auth \<lparr>opt_audience = ''https://api-parcial.com'',
              issuerBaseURL = ''https://dev-uilvef2fvivglwd5.us.auth0.com/'',
              tokenSigningAlg = ''RS256''\<rparr> rq u = (Inr pl, u')
      \<longrightarrow> run_route auth requiredScopes handler r rq u =
            (case r_guard r of
               Scoped s \<Rightarrow>
                 (case requiredScopes s pl of
                    Some e \<Rightarrow> (error_handler e, u')
                  | None \<Rightarrow> (handler r rq (Some pl), u'))
             | g \<Rightarrow> (handler r rq (Some pl), u')))"
proof (intro conjI impI)
  assume "verificarToken V client req w = (Next req', w')"
  from verificarToken_Next [OF this]
  show "\<exists>h decoded. authorization req = Some h \<and> prefix ''Bearer '' h \<and>
         V (second_piece (split_space h)) (getKey client)
           \<lparr>algorithms = [''RS256''],
            issuer = Some ''http://localhost:8080/realms/parcial-oauth'',
            audience = None\<rparr> w = (Inr decoded, w') \<and>
         req' = req\<lparr>user := Some decoded\<rparr>"
    by (simp add: keycloak_options_def KEYCLOAK_URL_def REALM_def)
next
  assume h: "r_guard r \<noteq> Public \<and>
        auth \<lparr>opt_audience = ''https://api-parcial.com'',
              issuerBaseURL = ''https://dev-uilvef2fvivglwd5.us.auth0.com/'',
              tokenSigningAlg = ''RS256''\<rparr> rq u = (Inl err, u')"
  then have "checkJwt auth rq u = (Inl err, u')"
    by (simp add: checkJwt_configuration)
  with h show "run_route auth requiredScopes handler r rq u = (error_handler err, u')"
    by (intro run_route_auth_error) simp_all
next
  assume h: "r_guard r \<noteq> Public \<and>
        auth \<lparr>opt_audience = ''https://api-parcial.com'',
              issuerBaseURL = ''https://dev-uilvef2fvivglwd5.us.auth0.com/'',
              tokenSigningAlg = ''RS256''\<rparr> rq u = (Inr pl, u')"
  then have "checkJwt auth rq u = (Inr pl, u')"
    by (simp add: checkJwt_configuration)
  with h show "run_route auth requiredScopes handler r rq u =
            (case r_guard r of
               Scoped s \<Rightarrow>
                 (case requiredScopes s pl of
                    Some e \<Rightarrow> (error_handler e, u')
                  | None \<Rightarrow> (handler r rq (Some pl), u'))
             | g \<Rightarrow> (handler r rq (Some pl), u'))"
    by (cases "r_guard r") (simp_all add: run_route_def)
qed

text \<open>
  At an input: the accepted request of the counterexample on Api.js; on the
  \<^verbatim>\<open>/api/token-info\<close> route of the Auth0 variant, a request the token middleware
  refuses and one it accepts.
\<close>

theorem claims_attached_after_verification_witness:
  "verificarToken (jwt_verify sample_env) sample_client
       (sample_request (Some ''Bearer tok.live'')) w0 =
     (Next ((sample_request (Some ''Bearer tok.live''))
              \<lparr>user := Some (sample_claims ''otro-servicio'' 2000)\<rparr>),
      \<lparr>key_requests = [Some ''kid-1'']\<rparr>)
   \<and> (\<exists>h decoded. prefix ''Bearer '' h \<and>
         jwt_verify sample_env (second_piece (split_space h)) (getKey sample_client)
           \<lparr>algorithms = [''RS256''],
            issuer = Some ''http://localhost:8080/realms/parcial-oauth'',
            audience = None\<rparr> w0 = (Inr decoded, \<lparr>key_requests = [Some ''kid-1'']\<rparr>))
   \<and> run_route sample_auth_fail sample_scope_check sample_route_handler
         \<lparr>r_meth = ''GET'', r_path = ''/api/token-info'', r_guard = Token\<rparr>
         (sample_request None) w0 =
       (error_handler \<lparr>err_name = ''UnauthorizedError'', err_message = ''Unauthorized'',
                        err_code = None, err_expected = None, err_actual = None\<rparr>, w0)
   \<and> run_route sample_auth_ok sample_scope_check sample_route_handler
         \<lparr>r_meth = ''GET'', r_path = ''/api/token-info'', r_guard = Token\<rparr>
         (sample_request (Some ''Bearer x'')) w0 =
       (sample_route_handler \<lparr>r_meth = ''GET'', r_path = ''/api/token-info'', r_guard = Token\<rparr>
          (sample_request (Some ''Bearer x'')) (Some (JObj [(''scope'', JStr ''read write'')])), w0)"
proof -
  let ?opts = "\<lparr>opt_audience = ''https://api-parcial.com'',
                issuerBaseURL = ''https://dev-uilvef2fvivglwd5.us.auth0.com/'',
                tokenSigningAlg = ''RS256''\<rparr>"
  let ?rt = "\<lparr>r_meth = ''GET'', r_path = ''/api/token-info'', r_guard = Token\<rparr>"
  let ?e = "\<lparr>err_name = ''UnauthorizedError'', err_message = ''Unauthorized'',
             err_code = None, err_expected = None, err_actual = None\<rparr>"
  have g: "r_guard ?rt \<noteq> Public" by simp
  have f: "sample_auth_fail ?opts (sample_request None) w0 = (Inl ?e, w0)"
    by (simp add: sample_auth_fail_def)
  have k: "sample_auth_ok ?opts (sample_request (Some ''Bearer x'')) w0 =
             (Inr (JObj [(''scope'', JStr ''read write'')]), w0)"
    by (simp add: sample_auth_ok_def)
  note a = claims_attached_after_verification
    [where V = "jwt_verify sample_env" and client = sample_client
       and req = "sample_request (Some ''Bearer tok.live'')" and w = w0
       and req' = "(sample_request (Some ''Bearer tok.live''))
              \<lparr>user := Some (sample_claims ''otro-servicio'' 2000)\<rparr>"
       and w' = "\<lparr>key_requests = [Some ''kid-1'']\<rparr>"
       and r = ?rt and auth = sample_auth_fail and rq = "sample_request None" and u = w0
       and u' = w0 and err = ?e and requiredScopes = sample_scope_check
       and handler = sample_route_handler]
  note b = claims_attached_after_verification
    [where r = ?rt and auth = sample_auth_ok and rq = "sample_request (Some ''Bearer x'')"
       and u = w0 and u' = w0 and pl = "JObj [(''scope'', JStr ''read write'')]"
       and requiredScopes = sample_scope_check and handler = sample_route_handler]
  have 1: "\<exists>h decoded. prefix ''Bearer '' h \<and>
         jwt_verify sample_env (second_piece (split_space h)) (getKey sample_client)
           \<lparr>algorithms = [''RS256''],
            issuer = Some ''http://localhost:8080/realms/parcial-oauth'',
            audience = None\<rparr> w0 = (Inr decoded, \<lparr>key_requests = [Some ''kid-1'']\<rparr>)"
    using a sample_live_accepted by blast
  have 2: "run_route sample_auth_fail sample_scope_check sample_route_handler ?rt
             (sample_request None) w0 = (error_handler ?e, w0)"
    using a g f by blast
  have 3: "run_route sample_auth_ok sample_scope_check sample_route_handler ?rt
             (sample_request (Some ''Bearer x'')) w0 =
           (sample_route_handler ?rt (sample_request (Some ''Bearer x''))
              (Some (JObj [(''scope'', JStr ''read write'')])), w0)"
    using b g k by simp
  from sample_live_accepted 1 2 3 show ?thesis by simp
qed

text \<open>
  Claim C2, as stated, fails on Api.js: a request with an expired token is answered with
  status 403, not 401.
\<close>

theorem failed_token_403_counterexample:
  "verificarToken (jwt_verify sample_env) sample_client
       (sample_request (Some ''Bearer tok.old'')) w0 =
     (Respond \<lparr>status = 403,
               body = JObj [(''error'',
                               JStr (''Token inv'' @ [CHR 0xC3, CHR 0xA1] @ ''lido o expirado'')),
                            (''detalle'', JStr ''jwt expired'')]\<rparr>,
      \<lparr>key_requests = [Some ''kid-1'']\<rparr>)"
  using sample_old_rejected by (simp add: token_invalido_def)

text \<open>
  Claim C2, amended. In Api.js, whenever the verifier calls back with an error (a bad
  signature, an expired token, another issuer: whatever the error is),
  \<^verbatim>\<open>verificarToken\<close> answers with status 403, its invalid-token error and the
  verifier's message; status 401 is kept for the request without a bearer token.
\<close>

theorem failed_verification_status:
  "authorization req = Some h \<and> prefix ''Bearer '' h \<and>
     V (second_piece (split_space h)) (getKey client) keycloak_options w = (Inl msg, w')
   \<longrightarrow> verificarToken V client req w =
         (Respond \<lparr>status = 403,
                   body = JObj [(''error'',
                                   JStr (''Token inv'' @ [CHR 0xC3, CHR 0xA1] @ ''lido o expirado'')),
                                (''detalle'', JStr msg)]\<rparr>, w')
       \<and> keycloak_route V client R handler req w =
         (Inr \<lparr>status = 403,
               body = JObj [(''error'',
                               JStr (''Token inv'' @ [CHR 0xC3, CHR 0xA1] @ ''lido o expirado'')),
                            (''detalle'', JStr msg)]\<rparr>, w')"
proof
  assume h: "authorization req = Some h \<and> prefix ''Bearer '' h \<and>
      V (second_piece (split_space h)) (getKey client) keycloak_options w = (Inl msg, w')"
  then have a: "authorization req = Some h" and p: "prefix ''Bearer '' h" by simp_all
  have v: "verificarToken V client req w = (Respond (token_invalido msg), w')"
    using h by (simp add: verificarToken_bearer [OF a p])
  then have k: "keycloak_route V client R handler req w = (Inr (token_invalido msg), w')"
    by (simp add: keycloak_route_def)
  from v k show "verificarToken V client req w =
         (Respond \<lparr>status = 403,
                   body = JObj [(''error'',
                                   JStr (''Token inv'' @ [CHR 0xC3, CHR 0xA1] @ ''lido o expirado'')),
                                (''detalle'', JStr msg)]\<rparr>, w')
       \<and> keycloak_route V client R handler req w =
         (Inr \<lparr>status = 403,
               body = JObj [(''error'',
                               JStr (''Token inv'' @ [CHR 0xC3, CHR 0xA1] @ ''lido o expirado'')),
                            (''detalle'', JStr msg)]\<rparr>, w')"
    by (simp add: token_invalido_def)
qed

text \<open>
  At an input: the expired token.
\<close>

theorem failed_verification_status_witness:
  "keycloak_route (jwt_verify sample_env) sample_client [''user-read''] sample_handler
       (sample_request (Some ''Bearer tok.old'')) w0 =
     (Inr \<lparr>status = 403,
           body = JObj [(''error'',
                           JStr (''Token inv'' @ [CHR 0xC3, CHR 0xA1] @ ''lido o expirado'')),
                        (''detalle'', JStr ''jwt expired'')]\<rparr>,
      \<lparr>key_requests = [Some ''kid-1'']\<rparr>)"
proof -
  have a: "authorization (sample_request (Some ''Bearer tok.old'')) = Some ''Bearer tok.old''"
    by (simp add: sample_request_def)
  have p: "prefix ''Bearer '' ''Bearer tok.old''" by simp
  have v: "jwt_verify sample_env (second_piece (split_space ''Bearer tok.old''))
             (getKey sample_client) keycloak_options w0 =
           (Inl ''jwt expired'', \<lparr>key_requests = [Some ''kid-1'']\<rparr>)"
    unfolding sample_split_old by (rule sample_verify_old)
  note t = failed_verification_status
    [where req = "sample_request (Some ''Bearer tok.old'')" and h = "''Bearer tok.old''"
       and V = "jwt_verify sample_env" and client = sample_client and w = w0
       and msg = "''jwt expired''" and w' = "\<lparr>key_requests = [Some ''kid-1'']\<rparr>"
       and R = "[''user-read'']" and handler = sample_handler]
  from t a p v show ?thesis by blast
qed

text \<open>
  Claim C6. When the Authorization header is absent, or does not have the form the code
  tests for (it does not start with \<^verbatim>\<open>Bearer \<close>; the empty header is such a one),
  \<^verbatim>\<open>verificarToken\<close> answers 401 with the error \<^verbatim>\<open>Token no proporcionado\<close>,
  whatever the verifier and the JWKS client are: the world is unchanged, so no key was
  asked for; the route's answer is that response for every handler, so the handler was
  not run; and the response differs from every invalid-token response.
\<close>

theorem missing_token_401:
  "authorization req = None \<or> (\<exists>h. authorization req = Some h \<and> \<not> prefix ''Bearer '' h)
   \<longrightarrow> verificarToken V client req w =
         (Respond \<lparr>status = 401,
                   body = JObj [(''error'', JStr ''Token no proporcionado''),
                                (''mensaje'', JStr ''Debe incluir: Authorization: Bearer <token>'')]\<rparr>,
          w)
       \<and> keycloak_route V client R handler req w = (Inr token_no_proporcionado, w)
       \<and> token_no_proporcionado \<noteq> token_invalido msg"
proof
  assume h: "authorization req = None \<or>
             (\<exists>h. authorization req = Some h \<and> \<not> prefix ''Bearer '' h)"
  have v: "verificarToken V client req w = (Respond token_no_proporcionado, w)"
    using h by (rule verificarToken_no_bearer)
  have k: "keycloak_route V client R handler req w = (Inr token_no_proporcionado, w)"
    by (simp add: keycloak_route_def v)
  have d: "token_no_proporcionado \<noteq> token_invalido msg"
    by (simp add: token_no_proporcionado_def token_invalido_def)
  show "verificarToken V client req w =
         (Respond \<lparr>status = 401,
                   body = JObj [(''error'', JStr ''Token no proporcionado''),
                                (''mensaje'', JStr ''Debe incluir: Authorization: Bearer <token>'')]\<rparr>,
          w)
       \<and> keycloak_route V client R handler req w = (Inr token_no_proporcionado, w)
       \<and> token_no_proporcionado \<noteq> token_invalido msg"
    using v k d by (simp add: token_no_proporcionado_def)
qed

text \<open>
  At an input: no header, and a header of another scheme.
\<close>

theorem missing_token_401_witness:
  "verificarToken (jwt_verify sample_env) sample_client (sample_request None) w0 =
     (Respond \<lparr>status = 401,
               body = JObj [(''error'', JStr ''Token no proporcionado''),
                            (''mensaje'', JStr ''Debe incluir: Authorization: Bearer <token>'')]\<rparr>,
      w0)
   \<and> verificarToken (jwt_verify sample_env) sample_client (sample_request (Some ''Basic abc'')) w0 =
     (Respond \<lparr>status = 401,
               body = JObj [(''error'', JStr ''Token no proporcionado''),
                            (''mensaje'', JStr ''Debe incluir: Authorization: Bearer <token>'')]\<rparr>,
      w0)
   \<and> keycloak_route (jwt_verify sample_env) sample_client [''user-read''] sample_handler
        (sample_request None) w0 = (Inr token_no_proporcionado, w0)"
proof -
  have a: "authorization (sample_request None) = None"
    by (simp add: sample_request_def)
  have b: "\<exists>h. authorization (sample_request (Some ''Basic abc'')) = Some h \<and>
               \<not> prefix ''Bearer '' h"
    by (simp add: sample_request_def)
  from a missing_token_401
    [of "sample_request None" "jwt_verify sample_env" sample_client w0 "[''user-read'']"
        sample_handler]
  have 1: "verificarToken (jwt_verify sample_env) sample_client (sample_request None) w0 =
     (Respond \<lparr>status = 401,
               body = JObj [(''error'', JStr ''Token no proporcionado''),
                            (''mensaje'', JStr ''Debe incluir: Authorization: Bearer <token>'')]\<rparr>,
      w0)
     \<and> keycloak_route (jwt_verify sample_env) sample_client [''user-read''] sample_handler
        (sample_request None) w0 = (Inr token_no_proporcionado, w0)"
    by blast
  from b missing_token_401
    [of "sample_request (Some ''Basic abc'')" "jwt_verify sample_env" sample_client w0]
  have 2: "verificarToken (jwt_verify sample_env) sample_client
             (sample_request (Some ''Basic abc'')) w0 =
     (Respond \<lparr>status = 401,
               body = JObj [(''error'', JStr ''Token no proporcionado''),
                            (''mensaje'', JStr ''Debe incluir: Authorization: Bearer <token>'')]\<rparr>,
      w0)"
    by blast
  from 1 2 show ?thesis by simp
qed

section \<open>Authorization: the role strategy\<close>



text \<open>
  On Api.js a denial carries both lists: a request that passed
  \<^verbatim>\<open>verificarToken\<close> and is denied by \<^verbatim>\<open>requiereRol\<close> gets status 403 and a
  body with the whole list of required roles and the whole list of roles gathered from
  the token.
\<close>

lemma keycloak_denied_carries_both_sets:
  assumes "verificarToken V client req w = (Next req', w')"
    and "requiereRol R req' = Respond r"
  shows "keycloak_route V client R handler req w = (Inr r, w')"
    and "\<exists>claims todos. user req' = Some claims \<and>
           todosLosRoles (resourceAccess claims) = Inr todos \<and>
           r = \<lparr>status = 403,
                body = JObj [(''error'', JStr ''Permisos insuficientes''),
                             (''rolesRequeridos'', JArr (map JStr R)),
                             (''rolesActuales'', JArr todos)]\<rparr>"
proof -
  show "keycloak_route V client R handler req w = (Inr r, w')"
    using assms by (simp add: keycloak_route_def)
  from requiereRol_Respond [OF assms(2)]
  show "\<exists>claims todos. user req' = Some claims \<and>
           todosLosRoles (resourceAccess claims) = Inr todos \<and>
           r = \<lparr>status = 403,
                body = JObj [(''error'', JStr ''Permisos insuficientes''),
                             (''rolesRequeridos'', JArr (map JStr R)),
                             (''rolesActuales'', JArr todos)]\<rparr>"
    by (auto simp: permisos_insuficientes_def)
qed

text \<open>
  Claim C7 fails on the Auth0 variant. The route \<^verbatim>\<open>GET /api/usuarios/perfil\<close>
  requires the scope \<^verbatim>\<open>user:read\<close>; the request carries a valid token whose scopes
  are read and write. The scope check passes on an \<^verbatim>\<open>InsufficientScopeError\<close>;
  the error middleware reads \<^verbatim>\<open>err.expected\<close> and \<^verbatim>\<open>err.actual\<close>, the error
  has neither field, and the 403 body holds the error text and the message only: neither
  the required scopes nor the actual ones.
\<close>

theorem insufficient_scope_body_lacks_sets:
  "run_route sample_auth_ok sample_scope_check sample_route_handler
     \<lparr>r_meth = ''GET'', r_path = ''/api/usuarios/perfil'', r_guard = Scoped ''user:read''\<rparr>
     (sample_request (Some ''Bearer x'')) w0 =
   (\<lparr>status = 403,
     body = JObj [(''error'', JStr ''Permisos insuficientes''),
                  (''mensaje'', JStr ''El token no tiene los scopes necesarios'')]\<rparr>, w0)"
proof -
  have c: "checkJwt sample_auth_ok (sample_request (Some ''Bearer x'')) w0 =
             (Inr (JObj [(''scope'', JStr ''read write'')]), w0)"
    by (simp add: checkJwt_def sample_auth_ok_def)
  have d: "sample_scope_check ''user:read'' (JObj [(''scope'', JStr ''read write'')]) =
             Some insufficient_scope"
    by (simp add: sample_scope_check_def)
  have e: "error_handler insufficient_scope =
             \<lparr>status = 403,
              body = JObj [(''error'', JStr ''Permisos insuficientes''),
                           (''mensaje'', JStr ''El token no tiene los scopes necesarios'')]\<rparr>"
    by (simp add: error_handler_def insufficient_scope_def obj_def List.map_filter_simps)
  show ?thesis
    by (simp add: run_route_def c d e)
qed

text \<open>
  Claim C10. The role check reads exactly the entries \<^verbatim>\<open>microserviciocliente\<close> and
  \<^verbatim>\<open>frontendapp\<close> of \<^verbatim>\<open>resource_access\<close>. For a claims object in which
  \<^verbatim>\<open>resource_access\<close> is absent, or holds neither of the two (whatever it grants
  under other names), the check does not throw: it answers 403 with the required roles
  and an empty list of actual roles. And two claims objects that agree on the two entries
  are admitted alike, so roles under another name never admit.
\<close>

theorem role_check_fixed_namespaces:
  "(user req = Some (JObj kvs) \<and>
      (map_of kvs ''resource_access'' = None \<or>
       (\<exists>ra. map_of kvs ''resource_access'' = Some ra \<and>
             get_prop ra ''microserviciocliente'' = None \<and>
             get_prop ra ''frontendapp'' = None))
    \<longrightarrow> requiereRol R req =
          Respond \<lparr>status = 403,
                   body = JObj [(''error'', JStr ''Permisos insuficientes''),
                                (''rolesRequeridos'', JArr (map JStr R)),
                                (''rolesActuales'', JArr [])]\<rparr>)
   \<and> (user req1 = Some c1 \<and> c1 \<noteq> JNull \<and> user req2 = Some c2 \<and> c2 \<noteq> JNull \<and>
        get_prop (resourceAccess c1) ''microserviciocliente'' =
          get_prop (resourceAccess c2) ''microserviciocliente'' \<and>
        get_prop (resourceAccess c1) ''frontendapp'' = get_prop (resourceAccess c2) ''frontendapp''
      \<longrightarrow> (requiereRol R req1 = Next req1 \<longleftrightarrow> requiereRol R req2 = Next req2))"
proof (intro conjI impI)
  assume h: "user req = Some (JObj kvs) \<and>
      (map_of kvs ''resource_access'' = None \<or>
       (\<exists>ra. map_of kvs ''resource_access'' = Some ra \<and>
             get_prop ra ''microserviciocliente'' = None \<and>
             get_prop ra ''frontendapp'' = None))"
  then have u: "user req = Some (JObj kvs)" by simp
  have "get_prop (resourceAccess (JObj kvs)) ''microserviciocliente'' = None \<and>
        get_prop (resourceAccess (JObj kvs)) ''frontendapp'' = None"
    using h by (auto simp: resourceAccess_absent resourceAccess_present)
  then have t: "todosLosRoles (resourceAccess (JObj kvs)) = Inr []"
    by (simp add: todosLosRoles_neither)
  show "requiereRol R req =
          Respond \<lparr>status = 403,
                   body = JObj [(''error'', JStr ''Permisos insuficientes''),
                                (''rolesRequeridos'', JArr (map JStr R)),
                                (''rolesActuales'', JArr [])]\<rparr>"
    using requiereRol_claims [OF u, of R] t
    by (simp add: tienePermiso_def list_ex_iff permisos_insuficientes_def)
next
  assume h: "user req1 = Some c1 \<and> c1 \<noteq> JNull \<and> user req2 = Some c2 \<and> c2 \<noteq> JNull \<and>
        get_prop (resourceAccess c1) ''microserviciocliente'' =
          get_prop (resourceAccess c2) ''microserviciocliente'' \<and>
        get_prop (resourceAccess c1) ''frontendapp'' = get_prop (resourceAccess c2) ''frontendapp''"
  then have eq: "todosLosRoles (resourceAccess c1) = todosLosRoles (resourceAccess c2)"
    by (intro todosLosRoles_cong) simp_all
  from h have r1: "requiereRol R req1 =
           (case todosLosRoles (resourceAccess c1) of
              Inl e \<Rightarrow> Throw e
            | Inr todos \<Rightarrow>
                if \<not> tienePermiso R todos
                then Respond (permisos_insuficientes R todos)
                else Next req1)"
    by (intro requiereRol_claims) simp_all
  from h have r2: "requiereRol R req2 =
           (case todosLosRoles (resourceAccess c2) of
              Inl e \<Rightarrow> Throw e
            | Inr todos \<Rightarrow>
                if \<not> tienePermiso R todos
                then Respond (permisos_insuficientes R todos)
                else Next req2)"
    by (intro requiereRol_claims) simp_all
  show "requiereRol R req1 = Next req1 \<longleftrightarrow> requiereRol R req2 = Next req2"
    unfolding r1 r2 eq by (simp split: sum.splits)
qed

text \<open>
  At an input: a token that grants \<^verbatim>\<open>user-read\<close> under the client
  \<^verbatim>\<open>otra-app\<close> only is denied \<^verbatim>\<open>user-read\<close>, with no actual roles.
\<close>

theorem role_check_fixed_namespaces_witness:
  "requiereRol [''user-read'']
     ((sample_request None)\<lparr>user := Some (JObj [(''resource_access'',
         JObj [(''otra-app'', JObj [(''roles'', JArr [JStr ''user-read''])])])])\<rparr>) =
   Respond \<lparr>status = 403,
            body = JObj [(''error'', JStr ''Permisos insuficientes''),
                         (''rolesRequeridos'', JArr [JStr ''user-read'']),
                         (''rolesActuales'', JArr [])]\<rparr>
   \<and> requiereRol [''admin'']
        ((sample_request None)\<lparr>user := Some (JObj [(''resource_access'',
            JObj [(''otra-app'', JObj [(''roles'', JArr [JStr ''admin''])]),
                  (''frontendapp'', JObj [(''roles'', JArr [JStr ''read''])])])])\<rparr>) \<noteq>
      Next ((sample_request None)\<lparr>user := Some (JObj [(''resource_access'',
            JObj [(''otra-app'', JObj [(''roles'', JArr [JStr ''admin''])]),
                  (''frontendapp'', JObj [(''roles'', JArr [JStr ''read''])])])])\<rparr>)"
proof -
  let ?other = "JObj [(''resource_access'',
         JObj [(''otra-app'', JObj [(''roles'', JArr [JStr ''user-read''])])])]"
  let ?more = "JObj [(''resource_access'',
            JObj [(''otra-app'', JObj [(''roles'', JArr [JStr ''admin''])]),
                  (''frontendapp'', JObj [(''roles'', JArr [JStr ''read''])])])]"
  note t = role_check_fixed_namespaces
    [where req = "(sample_request None)\<lparr>user := Some ?other\<rparr>"
       and kvs = "[(''resource_access'',
         JObj [(''otra-app'', JObj [(''roles'', JArr [JStr ''user-read''])])])]"
       and R = "[''user-read'']"]
  have 1: "requiereRol [''user-read''] ((sample_request None)\<lparr>user := Some ?other\<rparr>) =
     Respond \<lparr>status = 403,
            body = JObj [(''error'', JStr ''Permisos insuficientes''),
                         (''rolesRequeridos'', JArr [JStr ''user-read'']),
                         (''rolesActuales'', JArr [])]\<rparr>"
    using t by simp
  note t2 = role_check_fixed_namespaces
    [where ?req1.0 = "(sample_request None)\<lparr>user := Some (JObj [(''resource_access'',
            JObj [(''frontendapp'', JObj [(''roles'', JArr [JStr ''read''])])])])\<rparr>"
       and ?c1.0 = "JObj [(''resource_access'',
            JObj [(''frontendapp'', JObj [(''roles'', JArr [JStr ''read''])])])]"
       and ?req2.0 = "(sample_request None)\<lparr>user := Some ?more\<rparr>"
       and ?c2.0 = ?more and R = "[''admin'']"]
  have a: "requiereRol [''admin'']
             ((sample_request None)\<lparr>user := Some (JObj [(''resource_access'',
                JObj [(''frontendapp'', JObj [(''roles'', JArr [JStr ''read''])])])])\<rparr>) =
           Respond (permisos_insuficientes [''admin''] [JStr ''read''])"
    by (simp add: requiereRol_def todosLosRoles_def resourceAccess_def namespace_roles_def
        opt_chain_def or_else_def tienePermiso_def)
  have 2: "requiereRol [''admin''] ((sample_request None)\<lparr>user := Some ?more\<rparr>) \<noteq>
             Next ((sample_request None)\<lparr>user := Some ?more\<rparr>)"
    using t2 a by (simp add: resourceAccess_def or_else_def)
  from 1 2 show ?thesis by simp
qed

section \<open>Unknown routes\<close>




end
